theory Spec2Isabelle
  imports Main
begin

section \<open>JavaScript values\<close>

text \<open>
  The hook \<^verbatim>\<open>useStorage\<close> of \<^verbatim>\<open>src/useStorage.ts\<close> is generic in the type
  \<^verbatim>\<open>StoredObject\<close> of the value it holds. The values are modelled as the data a
  JavaScript program can hold and print: \<^verbatim>\<open>undefined\<close>, \<^verbatim>\<open>null\<close>, booleans,
  integer-valued numbers, strings, arrays and plain objects (the list of an object's own
  enumerable properties, in enumeration order). Function values are not among them: the
  one place where the source asks \<^verbatim>\<open>typeof valueOrFunction === 'function'\<close> is the
  argument of \<^verbatim>\<open>set\<close>, which is a sum type of its own below. Values are trees, so a
  circular object (on which \<^verbatim>\<open>JSON.stringify\<close> throws) is not a value of the model.
\<close>

datatype jsval =
    Undefined
  | Null
  | Bool bool
  | Num int
  | Str string
  | Arr "jsval list"
  | Obj "(string \<times> jsval) list"

text \<open>Every thrown value is an \<^verbatim>\<open>Error\<close> with its message.\<close>

datatype error = Error string

text \<open>\<^verbatim>\<open>!v\<close> is false on the truthy values.\<close>

fun truthy :: "jsval \<Rightarrow> bool" where
  "truthy Undefined = False"
| "truthy Null = False"
| "truthy (Bool b) = b"
| "truthy (Num n) = (n \<noteq> 0)"
| "truthy (Str s) = (s \<noteq> [])"
| "truthy (Arr xs) = True"
| "truthy (Obj ps) = True"

text \<open>\<^verbatim>\<open>typeof v === 'string'\<close>.\<close>

fun is_string :: "jsval \<Rightarrow> bool" where
  "is_string (Str s) = True"
| "is_string v = False"

subsection \<open>Printing: \<^verbatim>\<open>String\<close> and \<^verbatim>\<open>JSON.stringify\<close>\<close>

fun digits :: "nat \<Rightarrow> string" where
  "digits n = (if n < 10 then [''0123456789'' ! n]
               else digits (n div 10) @ [''0123456789'' ! (n mod 10)])"

definition NumberToString :: "int \<Rightarrow> string" where
  "NumberToString n = (if n < 0 then CHR ''-'' # digits (nat (- n)) else digits (nat n))"

fun join :: "string \<Rightarrow> string list \<Rightarrow> string" where
  "join sep [] = []"
| "join sep [x] = x"
| "join sep (x # y # ys) = x @ sep @ join sep (y # ys)"

text \<open>
  \<^verbatim>\<open>String(v)\<close>, the serializer of raw mode. An array prints its elements separated by
  commas, \<^verbatim>\<open>null\<close> and \<^verbatim>\<open>undefined\<close> elements as the empty string; a plain object
  prints as \<^verbatim>\<open>[object Object]\<close>.
\<close>

fun ToString :: "jsval \<Rightarrow> string" where
  "ToString Undefined = ''undefined''"
| "ToString Null = ''null''"
| "ToString (Bool b) = (if b then ''true'' else ''false'')"
| "ToString (Num n) = NumberToString n"
| "ToString (Str s) = s"
| "ToString (Arr xs) =
     join '','' (map (\<lambda>x. if x = Undefined \<or> x = Null then [] else ToString x) xs)"
| "ToString (Obj ps) = ''[object Object]''"

definition hex :: "nat \<Rightarrow> char" where
  "hex n = ''0123456789abcdef'' ! n"

definition QuoteJSONChar :: "char \<Rightarrow> string" where
  "QuoteJSONChar c =
     (if c = CHR 0x22 then [CHR 0x5C, CHR 0x22]
      else if c = CHR 0x5C then [CHR 0x5C, CHR 0x5C]
      else if c = CHR 0x08 then [CHR 0x5C, CHR ''b'']
      else if c = CHR 0x09 then [CHR 0x5C, CHR ''t'']
      else if c = CHR 0x0A then [CHR 0x5C, CHR ''n'']
      else if c = CHR 0x0C then [CHR 0x5C, CHR ''f'']
      else if c = CHR 0x0D then [CHR 0x5C, CHR ''r'']
      else if (of_char c :: nat) < 32
        then [CHR 0x5C, CHR ''u'', CHR ''0'', CHR ''0'',
              hex (of_char c div 16), hex (of_char c mod 16)]
      else [c])"

definition QuoteJSONString :: "string \<Rightarrow> string" where
  "QuoteJSONString s = [CHR 0x22] @ concat (map QuoteJSONChar s) @ [CHR 0x22]"

text \<open>
  \<^verbatim>\<open>JSON.stringify(v)\<close>: \<open>None\<close> is the result \<^verbatim>\<open>undefined\<close>, which
  \<^verbatim>\<open>JSON.stringify\<close> gives for \<^verbatim>\<open>undefined\<close> only. Inside an array
  \<^verbatim>\<open>undefined\<close> prints as \<^verbatim>\<open>null\<close>; a property whose value is \<^verbatim>\<open>undefined\<close>
  is left out.
\<close>

fun JSON_stringify :: "jsval \<Rightarrow> string option" where
  "JSON_stringify Undefined = None"
| "JSON_stringify Null = Some ''null''"
| "JSON_stringify (Bool b) = Some (if b then ''true'' else ''false'')"
| "JSON_stringify (Num n) = Some (NumberToString n)"
| "JSON_stringify (Str s) = Some (QuoteJSONString s)"
| "JSON_stringify (Arr xs) =
     Some (''['' @ join '',''
       (map (\<lambda>x. case JSON_stringify x of None \<Rightarrow> ''null'' | Some t \<Rightarrow> t) xs) @ '']'')"
| "JSON_stringify (Obj ps) =
     Some (''{'' @ join '',''
       (concat (map (\<lambda>(k, v). case JSON_stringify v of None \<Rightarrow> []
                   | Some t \<Rightarrow> [QuoteJSONString k @ '':'' @ t]) ps)) @ ''}'')"

text \<open>
  Where the source passes the result of \<^verbatim>\<open>JSON.stringify\<close> on as a string, the result
  \<^verbatim>\<open>undefined\<close> is read as the string the store and \<^verbatim>\<open>JSON.parse\<close> coerce it to.
\<close>

definition stringified :: "jsval \<Rightarrow> string" where
  "stringified v = (case JSON_stringify v of None \<Rightarrow> ''undefined'' | Some t \<Rightarrow> t)"

subsection \<open>Deep equality\<close>

text \<open>
  Modelled from the spec: \<^verbatim>\<open>./misc/isDeepEqual\<close> is imported by the source and is not
  part of it. The spec describes it as deep structural equality that recursively compares
  object and array contents, not reference identity, with value equality for scalars and
  values of unequal type unequal. Arrays are compared as ordered sequences; objects as
  key-value mappings: the same number of keys, every key of the first present in the
  second, and the values under each key deep-equal.
\<close>

function isDeepEqual :: "jsval \<Rightarrow> jsval \<Rightarrow> bool" where
  "isDeepEqual (Arr xs) b =
     (case b of
        Arr ys \<Rightarrow> length xs = length ys \<and>
                  list_all (\<lambda>(x, y). isDeepEqual x y) (zip xs ys)
      | _ \<Rightarrow> False)"
| "isDeepEqual (Obj ps) b =
     (case b of
        Obj qs \<Rightarrow> length ps = length qs \<and>
                  list_all (\<lambda>k. case map_of qs k of
                                  None \<Rightarrow> False
                                | Some w \<Rightarrow> (case map_of ps k of
                                              None \<Rightarrow> False
                                            | Some v \<Rightarrow> isDeepEqual v w))
                    (map fst ps)
      | _ \<Rightarrow> False)"
| "isDeepEqual Undefined b = (b = Undefined)"
| "isDeepEqual Null b = (b = Null)"
| "isDeepEqual (Bool x) b = (b = Bool x)"
| "isDeepEqual (Num x) b = (b = Num x)"
| "isDeepEqual (Str x) b = (b = Str x)"
  by pat_completeness auto

lemma size_map_of:
  "map_of ps k = Some v \<Longrightarrow> size v < Suc (size_list (size_prod (\<lambda>_. 0) size) ps)"
  by (induction ps) (auto split: if_splits)

lemma size_member:
  "x \<in> set xs \<Longrightarrow> size x < Suc (size_list size xs)"
  by (induction xs) auto

termination isDeepEqual
proof (relation "measure (\<lambda>(a, b). size a)")
  show "wf (measure (\<lambda>(a, b). size a))"
    by simp
next
  fix xs b ys and z :: "jsval \<times> jsval" and x y
  assume "z \<in> set (zip xs ys)" and "(x, y) = z"
  then have "x \<in> set xs"
    by (auto dest: set_zip_leftD)
  then show "((x, y), Arr xs, b) \<in> measure (\<lambda>(a, b). size a)"
    by (simp add: size_member)
next
  fix ps :: "(string \<times> jsval) list" and b k w v
  assume "map_of ps k = Some v"
  then show "((v, w), Obj ps, b) \<in> measure (\<lambda>(a, b). size a)"
    by (simp add: size_map_of)
qed

section \<open>The store\<close>

text \<open>
  The parameter \<^verbatim>\<open>storage: Storage\<close> is an object of the host (the Web Storage
  interface; in the tests a mock). Its entries are a map from keys to strings. A call may
  throw (private mode, a storage restriction, an exceeded quota): \<open>throws\<close> says which
  calls do, and with what error; a call that throws leaves the entries as they were. As
  the mock of the tests does, the store records the calls made on it.
\<close>

datatype access =
    GetItem string
  | SetItem string string
  | RemoveItem string

record Storage =
  items :: "string \<rightharpoonup> string"
  throws :: "access \<Rightarrow> error option"
  calls :: "access list"

definition getItem :: "string \<Rightarrow> Storage \<Rightarrow> (error + string option) \<times> Storage" where
  "getItem k st =
     (case throws st (GetItem k) of
        Some e \<Rightarrow> (Inl e, st\<lparr>calls := calls st @ [GetItem k]\<rparr>)
      | None \<Rightarrow> (Inr (items st k), st\<lparr>calls := calls st @ [GetItem k]\<rparr>))"

definition setItem :: "string \<Rightarrow> string \<Rightarrow> Storage \<Rightarrow> (error + unit) \<times> Storage" where
  "setItem k v st =
     (case throws st (SetItem k v) of
        Some e \<Rightarrow> (Inl e, st\<lparr>calls := calls st @ [SetItem k v]\<rparr>)
      | None \<Rightarrow> (Inr (), st\<lparr>items := (items st)(k \<mapsto> v), calls := calls st @ [SetItem k v]\<rparr>))"

definition removeItem :: "string \<Rightarrow> Storage \<Rightarrow> (error + unit) \<times> Storage" where
  "removeItem k st =
     (case throws st (RemoveItem k) of
        Some e \<Rightarrow> (Inl e, st\<lparr>calls := calls st @ [RemoveItem k]\<rparr>)
      | None \<Rightarrow> (Inr (), st\<lparr>items := (items st)(k := None), calls := calls st @ [RemoveItem k]\<rparr>))"

section \<open>Effects\<close>

text \<open>
  What a call of the hook or of one of its callbacks can change: the store, the state cell
  of \<^verbatim>\<open>useState\<close> (\<open>held\<close>, with \<open>mounted\<close> false until the first render has
  initialised it), and what the callback \<^verbatim>\<open>onThrow\<close> has been called with
  (\<open>thrown\<close>). \<open>updates\<close> counts the calls of \<^verbatim>\<open>setStoredObject\<close>: the held
  reference changes in no other way, so an unchanged count means that the very same
  reference is still held.
\<close>

record world =
  storage :: Storage
  mounted :: bool
  held :: jsval
  updates :: nat
  thrown :: "error list"

text \<open>A computation either returns a value or throws, and leaves a world behind.\<close>

type_synonym 'a action = "world \<Rightarrow> (error + 'a) \<times> world"

definition return :: "'a \<Rightarrow> 'a action" where
  "return x w = (Inr x, w)"

definition lift :: "error + 'a \<Rightarrow> 'a action" where
  "lift r w = (r, w)"

definition andThen :: "'a action \<Rightarrow> ('a \<Rightarrow> 'b action) \<Rightarrow> 'b action" where
  "andThen m f w = (case m w of (Inl e, w') \<Rightarrow> (Inl e, w') | (Inr x, w') \<Rightarrow> f x w')"

definition try_catch :: "'a action \<Rightarrow> (error \<Rightarrow> 'a action) \<Rightarrow> 'a action" where
  "try_catch body handler w =
     (case body w of (Inl e, w') \<Rightarrow> handler e w' | (Inr x, w') \<Rightarrow> (Inr x, w'))"

definition on_storage :: "(Storage \<Rightarrow> (error + 'a) \<times> Storage) \<Rightarrow> 'a action" where
  "on_storage f w = (case f (storage w) of (r, st) \<Rightarrow> (r, w\<lparr>storage := st\<rparr>))"

definition setStoredObject :: "jsval \<Rightarrow> unit action" where
  "setStoredObject v w = (Inr (), w\<lparr>held := v, updates := Suc (updates w)\<rparr>)"

section \<open>The hook\<close>

text \<open>
  The options as the caller passes them. A field of \<^verbatim>\<open>options\<close> that is absent is
  \<open>None\<close>. The callback \<^verbatim>\<open>onThrow\<close> is called for its effect only and is taken to
  return: the world records what it was called with.
\<close>

record parserOptions =
  opt_onThrow :: "(error \<Rightarrow> jsval) option"
  opt_raw :: bool
  opt_serializer :: "(jsval \<Rightarrow> error + string) option"
  opt_deserializer :: "(string \<Rightarrow> error + jsval) option"

text \<open>
  What the callbacks of one render close over: the destructured options, the key, the
  initial value, and \<^verbatim>\<open>storedObject\<close> as \<^verbatim>\<open>useState\<close> returned it in that render.
\<close>

record binding =
  key :: string
  initialValue :: jsval
  onThrow :: "(error \<Rightarrow> jsval) option"
  raw :: bool
  serializer :: "jsval \<Rightarrow> error + string"
  deserializer :: "string \<Rightarrow> error + jsval"
  storedObject :: jsval

text \<open>
  \<^verbatim>\<open>defaultOptions\<close>. \<^verbatim>\<open>JSON.parse\<close> belongs to the host; the model takes it as the
  parameter \<open>JSON_parse\<close>.
\<close>

definition defaultOptions_serializer :: "jsval \<Rightarrow> error + string" where
  "defaultOptions_serializer rawObject = Inr (stringified rawObject)"

definition defaultOptions_deserializer ::
    "(string \<Rightarrow> error + jsval) \<Rightarrow> string \<Rightarrow> error + jsval" where
  "defaultOptions_deserializer JSON_parse serializedStoredObject =
     JSON_parse serializedStoredObject"

text \<open>\<^verbatim>\<open>defaultRawOptions\<close>.\<close>

definition defaultRawOptions_serializer :: "jsval \<Rightarrow> error + string" where
  "defaultRawOptions_serializer v = Inr (ToString v)"

definition defaultRawOptions_deserializer :: "string \<Rightarrow> error + jsval" where
  "defaultRawOptions_deserializer serializedStoredObject = Inr (Str serializedStoredObject)"

text \<open>
  The destructuring
  \<^verbatim>\<open>options?.raw ? { ...options, ...defaultRawOptions } : { ...defaultOptions, ...options, raw: false }\<close>.
\<close>

definition destructure ::
    "(string \<Rightarrow> error + jsval) \<Rightarrow> parserOptions option \<Rightarrow> string \<Rightarrow> jsval \<Rightarrow> jsval \<Rightarrow> binding" where
  "destructure JSON_parse options k initial stored =
     (case options of
        None \<Rightarrow>
          \<lparr>key = k, initialValue = initial, onThrow = None, raw = False,
           serializer = defaultOptions_serializer,
           deserializer = defaultOptions_deserializer JSON_parse,
           storedObject = stored\<rparr>
      | Some opts \<Rightarrow>
          if opt_raw opts then
            \<lparr>key = k, initialValue = initial, onThrow = opt_onThrow opts, raw = True,
             serializer = defaultRawOptions_serializer,
             deserializer = defaultRawOptions_deserializer,
             storedObject = stored\<rparr>
          else
            \<lparr>key = k, initialValue = initial, onThrow = opt_onThrow opts, raw = False,
             serializer = (case opt_serializer opts of
                             None \<Rightarrow> defaultOptions_serializer | Some f \<Rightarrow> f),
             deserializer = (case opt_deserializer opts of
                               None \<Rightarrow> defaultOptions_deserializer JSON_parse | Some f \<Rightarrow> f),
             storedObject = stored\<rparr>)"

text \<open>\<^verbatim>\<open>onThrow?.(error)\<close>: nothing happens when no callback was supplied.\<close>

definition call_onThrow :: "binding \<Rightarrow> error \<Rightarrow> unit action" where
  "call_onThrow b e w =
     (case onThrow b of
        None \<Rightarrow> (Inr (), w)
      | Some f \<Rightarrow> (Inr (), w\<lparr>thrown := thrown w @ [e]\<rparr>))"

subsection \<open>\<^verbatim>\<open>initializer\<close>\<close>

text \<open>The body of the \<^verbatim>\<open>try\<close> block, then the function with its \<^verbatim>\<open>catch\<close>.\<close>

definition initializer_try :: "binding \<Rightarrow> string \<Rightarrow> jsval action" where
  "initializer_try b k =
     andThen (on_storage (getItem k)) (\<lambda>storedObject.
       case storedObject of
         Some s \<Rightarrow> lift (deserializer b s)
       | None \<Rightarrow>
           andThen
             (if truthy (initialValue b)
              then andThen (lift (serializer b (initialValue b)))
                     (\<lambda>t. on_storage (setItem k t))
              else return ())
             (\<lambda>_. return (initialValue b)))"

definition initializer :: "binding \<Rightarrow> string \<Rightarrow> jsval action" where
  "initializer b k =
     try_catch (initializer_try b k)
       (\<lambda>error. andThen (call_onThrow b error) (\<lambda>_. return (initialValue b)))"

subsection \<open>The layout effect\<close>

definition useLayoutEffect :: "binding \<Rightarrow> unit action" where
  "useLayoutEffect b =
     andThen (initializer b (key b)) (\<lambda>newValue.
       if \<not> isDeepEqual newValue (storedObject b) then setStoredObject newValue
       else return ())"

subsection \<open>\<^verbatim>\<open>set\<close>\<close>

text \<open>
  The argument of \<^verbatim>\<open>set\<close> is a value or a function of the previous state, which may
  throw.
\<close>

datatype SetStateAction =
    Value jsval
  | Updater "jsval \<Rightarrow> error + jsval"

text \<open>
  \<^verbatim>\<open>newValue\<close>: the updater is applied to \<^verbatim>\<open>storedObject\<close> as this render's
  closure holds it.
\<close>

definition newValue :: "binding \<Rightarrow> SetStateAction \<Rightarrow> error + jsval" where
  "newValue b valueOrFunction =
     (case valueOrFunction of
        Updater f \<Rightarrow> f (storedObject b)
      | Value v \<Rightarrow> Inr v)"

text \<open>
  \<^verbatim>\<open>transformedNewValue\<close>: the serializer unless raw; in raw mode
  \<^verbatim>\<open>JSON.stringify\<close> for a value that is not a string, and a string as it is.
\<close>

definition transformedNewValue :: "binding \<Rightarrow> jsval \<Rightarrow> error + string" where
  "transformedNewValue b v =
     (if \<not> raw b then serializer b v
      else if \<not> is_string v then Inr (stringified v)
      else Inr (ToString v))"

definition set_try :: "binding \<Rightarrow> SetStateAction \<Rightarrow> unit action" where
  "set_try b valueOrFunction =
     andThen (lift (newValue b valueOrFunction)) (\<lambda>v.
       if v = Undefined then return ()
       else
         andThen (lift (transformedNewValue b v)) (\<lambda>t.
           andThen (on_storage (setItem (key b) t)) (\<lambda>_.
             andThen (lift (if raw b then Inr v else deserializer b t))
               setStoredObject)))"

definition set_stored :: "binding \<Rightarrow> SetStateAction \<Rightarrow> unit action" where
  "set_stored b valueOrFunction =
     try_catch (set_try b valueOrFunction) (\<lambda>error. call_onThrow b error)"

subsection \<open>\<^verbatim>\<open>remove\<close>\<close>

definition remove_try :: "binding \<Rightarrow> unit action" where
  "remove_try b =
     andThen (on_storage (removeItem (key b))) (\<lambda>_. setStoredObject Undefined)"

definition remove :: "binding \<Rightarrow> unit action" where
  "remove b = try_catch (remove_try b) (\<lambda>error. call_onThrow b error)"

subsection \<open>\<^verbatim>\<open>useStorage\<close>\<close>

text \<open>
  One render. The key is checked first. \<^verbatim>\<open>useState\<close> runs its initialiser in the first
  render only and returns the state cell afterwards. The store is called with the key as a
  string. The result is what \<^verbatim>\<open>set\<close>, \<^verbatim>\<open>remove\<close> and the layout effect of this render
  close over; its \<open>storedObject\<close> is the first component of the returned triple. The host
  runs the layout effect after the render. The call \<^verbatim>\<open>console.log(storedObject)\<close>
  touches neither the store nor the state and is left out.
\<close>

definition useState :: "binding \<Rightarrow> jsval action" where
  "useState b w =
     (if mounted w then (Inr (held w), w)
      else (case initializer b (key b) w of
              (Inl e, w') \<Rightarrow> (Inl e, w')
            | (Inr v, w') \<Rightarrow> (Inr v, w'\<lparr>mounted := True, held := v\<rparr>)))"

definition useStorage ::
    "(string \<Rightarrow> error + jsval) \<Rightarrow> jsval \<Rightarrow> jsval \<Rightarrow> parserOptions option \<Rightarrow> binding action" where
  "useStorage JSON_parse k initial options =
     (if \<not> truthy k then lift (Inl (Error ''useStorage key may not be falsy''))
      else
        andThen (useState (destructure JSON_parse options (ToString k) initial Undefined))
          (\<lambda>stored. return (destructure JSON_parse options (ToString k) initial stored)))"

lemmas action_defs =
  return_def lift_def andThen_def try_catch_def on_storage_def setStoredObject_def
  call_onThrow_def

lemmas storage_defs = getItem_def setItem_def removeItem_def

section \<open>Properties\<close>

subsection \<open>Reconciliation and failure, as the specification names them\<close>

text \<open>
  The reconciler: the layout effect of a render that has read the state cell as it now
  is.
\<close>

definition reconcile :: "binding \<Rightarrow> unit action" where
  "reconcile b w = useLayoutEffect (b\<lparr>storedObject := held w\<rparr>) w"

text \<open>
  A run of the initializer seeds the store with \<open>t\<close>: the read reports absence, the
  initial value is truthy, its serialization is \<open>t\<close>, and the write does not throw.
  This is the one way in which the reconciler itself changes the entry.
\<close>

definition seeds :: "binding \<Rightarrow> Storage \<Rightarrow> string \<Rightarrow> bool" where
  "seeds b st t \<longleftrightarrow>
     throws st (GetItem (key b)) = None \<and> items st (key b) = None \<and>
     truthy (initialValue b) \<and> serializer b (initialValue b) = Inr t \<and>
     throws st (SetItem (key b) t) = None"

text \<open>
  The seeded text reads back as the initial value: what the deserializer makes of it,
  when it returns, is deep-equal to \<^verbatim>\<open>initialValue\<close>.
\<close>

definition reads_back :: "binding \<Rightarrow> string \<Rightarrow> bool" where
  "reads_back b t \<longleftrightarrow>
     (case deserializer b t of
        Inl e \<Rightarrow> True
      | Inr d \<Rightarrow> isDeepEqual d (initialValue b))"

text \<open>
  A step of initialization fails with \<open>e\<close>: the store read throws it; or the entry is
  present and the deserializer throws it; or the entry is absent, the initial value is
  truthy and the serializer or the store write throws it.
\<close>

definition initialization_fails :: "binding \<Rightarrow> string \<Rightarrow> Storage \<Rightarrow> error \<Rightarrow> bool" where
  "initialization_fails b k st e \<longleftrightarrow>
     (case throws st (GetItem k) of
        Some e' \<Rightarrow> e' = e
      | None \<Rightarrow>
          (case items st k of
             Some s \<Rightarrow> deserializer b s = Inl e
           | None \<Rightarrow> truthy (initialValue b) \<and>
               (case serializer b (initialValue b) of
                  Inl e' \<Rightarrow> e' = e
                | Inr t \<Rightarrow> throws st (SetItem k t) = Some e)))"

text \<open>
  A step of \<^verbatim>\<open>set\<close> up to and including the store write fails with \<open>e\<close>: the updater
  throws it, or the new value is defined and the serializer or the store write throws it.
\<close>

definition set_fails_before_writing ::
    "binding \<Rightarrow> SetStateAction \<Rightarrow> Storage \<Rightarrow> error \<Rightarrow> bool" where
  "set_fails_before_writing b a st e \<longleftrightarrow>
     (case newValue b a of
        Inl e' \<Rightarrow> e' = e
      | Inr v \<Rightarrow> v \<noteq> Undefined \<and>
          (case transformedNewValue b v of
             Inl e' \<Rightarrow> e' = e
           | Inr t \<Rightarrow> throws st (SetItem (key b) t) = Some e))"

text \<open>
  The re-derivation of the held value fails with \<open>e\<close>, after \<open>t\<close> has been written:
  in structured mode the deserializer throws it on the serialized form.
\<close>

definition set_fails_rederiving ::
    "binding \<Rightarrow> SetStateAction \<Rightarrow> Storage \<Rightarrow> string \<Rightarrow> error \<Rightarrow> bool" where
  "set_fails_rederiving b a st t e \<longleftrightarrow>
     (case newValue b a of
        Inl e' \<Rightarrow> False
      | Inr v \<Rightarrow> v \<noteq> Undefined \<and> transformedNewValue b v = Inr t \<and>
          throws st (SetItem (key b) t) = None \<and> \<not> raw b \<and> deserializer b t = Inl e)"

subsection \<open>Sample inputs\<close>

text \<open>
  The stores of the tests: one that answers every call, one that throws on every call.
\<close>

definition mockStorage :: "(string \<times> string) list \<Rightarrow> Storage" where
  "mockStorage entries = \<lparr>items = map_of entries, throws = (\<lambda>a. None), calls = []\<rparr>"

definition restrictedStorage :: "(string \<times> string) list \<Rightarrow> Storage" where
  "restrictedStorage entries =
     \<lparr>items = map_of entries, throws = (\<lambda>a. Some (Error ''SecurityError'')), calls = []\<rparr>"

text \<open>The world before the first render, and one in which a value is held.\<close>

definition unmounted :: "Storage \<Rightarrow> world" where
  "unmounted st = \<lparr>storage = st, mounted = False, held = Undefined, updates = 0, thrown = []\<rparr>"

definition holding :: "jsval \<Rightarrow> Storage \<Rightarrow> world" where
  "holding v st = \<lparr>storage = st, mounted = True, held = v, updates = 0, thrown = []\<rparr>"

text \<open>
  A \<^verbatim>\<open>JSON.parse\<close> that knows the texts of the samples, a deserializer that rejects
  every text, and a callback.
\<close>

definition parse_sample :: "string \<Rightarrow> error + jsval" where
  "parse_sample s =
     (if s = ''\"bar\"'' then Inr (Str ''bar'')
      else if s = ''\"baz\"'' then Inr (Str ''baz'')
      else if s = ''null'' then Inr Null
      else if s = ''{\"ok\":true}'' then Inr (Obj [(''ok'', Bool True)])
      else if s = ''[null]'' then Inr (Arr [Null])
      else Inl (Error ''SyntaxError''))"

definition unparsable :: "string \<Rightarrow> error + jsval" where
  "unparsable s = Inl (Error ''SyntaxError'')"

definition ignore :: "error \<Rightarrow> jsval" where
  "ignore e = Undefined"

text \<open>
  Options: with \<^verbatim>\<open>onThrow\<close> and the default pair of functions spelled out; raw mode;
  with \<^verbatim>\<open>onThrow\<close> and the rejecting deserializer.
\<close>

definition reporting_options :: parserOptions where
  "reporting_options =
     \<lparr>opt_onThrow = Some ignore, opt_raw = False,
      opt_serializer = Some defaultOptions_serializer,
      opt_deserializer = Some parse_sample\<rparr>"

definition raw_options :: parserOptions where
  "raw_options =
     \<lparr>opt_onThrow = None, opt_raw = True, opt_serializer = None, opt_deserializer = None\<rparr>"

definition undecodable_options :: parserOptions where
  "undecodable_options =
     \<lparr>opt_onThrow = Some ignore, opt_raw = False,
      opt_serializer = Some defaultOptions_serializer,
      opt_deserializer = Some unparsable\<rparr>"

text \<open>
  Bindings for the key \<^verbatim>\<open>foo\<close>: without options, and with each of these options.
\<close>

definition structured :: "jsval \<Rightarrow> jsval \<Rightarrow> binding" where
  "structured initial stored = destructure parse_sample None ''foo'' initial stored"

definition reporting :: "jsval \<Rightarrow> jsval \<Rightarrow> binding" where
  "reporting initial stored =
     destructure parse_sample (Some reporting_options) ''foo'' initial stored"

definition raw_mode :: "jsval \<Rightarrow> jsval \<Rightarrow> binding" where
  "raw_mode initial stored =
     destructure parse_sample (Some raw_options) ''foo'' initial stored"

definition undecodable :: "jsval \<Rightarrow> jsval \<Rightarrow> binding" where
  "undecodable initial stored =
     destructure parse_sample (Some undecodable_options) ''foo'' initial stored"

lemmas example_defs =
  mockStorage_def restrictedStorage_def unmounted_def holding_def parse_sample_def
  unparsable_def ignore_def structured_def reporting_def raw_mode_def undecodable_def
  reporting_options_def raw_options_def undecodable_options_def
  destructure_def defaultOptions_serializer_def defaultOptions_deserializer_def
  defaultRawOptions_serializer_def defaultRawOptions_deserializer_def
  stringified_def QuoteJSONString_def QuoteJSONChar_def NumberToString_def

subsection \<open>Auxiliary facts\<close>

lemma isDeepEqual_refl: "isDeepEqual v v"
proof (induction v)
  case (Arr xs)
  then show ?case
    by (auto simp: list_all_iff set_zip)
next
  case (Obj ps)
  have "\<exists>v. map_of ps k = Some v \<and> isDeepEqual v v" if "k \<in> fst ` set ps" for k
  proof -
    from that obtain v where v: "map_of ps k = Some v"
      by (metis domD dom_map_of_conv_image_fst)
    then have "(k, v) \<in> set ps"
      by (rule map_of_SomeD)
    with Obj.IH have "isDeepEqual v v"
      by fastforce
    with v show ?thesis
      by blast
  qed
  then show ?case
    by (fastforce simp: list_all_iff)
qed simp_all

lemma JSON_stringify_defined: "v \<noteq> Undefined \<Longrightarrow> JSON_stringify v = Some (stringified v)"
  by (cases v) (simp_all add: stringified_def)

lemma try_catch_returns:
  "(\<And>e w'. \<exists>x. fst (handler e w') = Inr x) \<Longrightarrow> \<exists>x. fst (try_catch body handler w) = Inr x"
  by (cases "body w") (auto simp: try_catch_def split: sum.splits)

lemma try_catch_silent:
  "thrown (snd (body w)) = thrown w \<Longrightarrow> (\<And>e w'. thrown (snd (handler e w')) = thrown w') \<Longrightarrow>
     thrown (snd (try_catch body handler w)) = thrown w"
  by (cases "body w") (auto simp: try_catch_def split: sum.splits)

lemma initializer_returns: "\<exists>v. fst (initializer b k w) = Inr v"
  unfolding initializer_def
  by (rule try_catch_returns) (simp add: action_defs split: option.splits)

lemma set_stored_returns: "fst (set_stored b a w) = Inr ()"
proof -
  have "\<exists>x. fst (set_stored b a w) = Inr x"
    unfolding set_stored_def
    by (rule try_catch_returns) (simp add: action_defs split: option.splits)
  then show ?thesis
    by simp
qed

lemma remove_returns: "fst (remove b w) = Inr ()"
proof -
  have "\<exists>x. fst (remove b w) = Inr x"
    unfolding remove_def
    by (rule try_catch_returns) (simp add: action_defs split: option.splits)
  then show ?thesis
    by simp
qed

lemma initializer_try_thrown: "thrown (snd (initializer_try b k w)) = thrown w"
  by (auto simp: initializer_try_def action_defs storage_defs split: option.splits sum.splits)

lemma set_try_thrown: "thrown (snd (set_try b a w)) = thrown w"
  by (auto simp: set_try_def action_defs storage_defs split: option.splits sum.splits)

lemma remove_try_thrown: "thrown (snd (remove_try b w)) = thrown w"
  by (auto simp: remove_try_def action_defs storage_defs split: option.splits sum.splits)

text \<open>The predicates of failure say exactly when the \<^verbatim>\<open>try\<close> blocks throw.\<close>

lemma initializer_try_fails_iff:
  "fst (initializer_try b k w) = Inl e \<longleftrightarrow> initialization_fails b k (storage w) e"
  by (auto simp: initializer_try_def initialization_fails_def action_defs storage_defs
      split: option.splits sum.splits)

lemma set_try_fails_iff:
  "fst (set_try b a w) = Inl e \<longleftrightarrow>
     set_fails_before_writing b a (storage w) e \<or>
     (\<exists>t. set_fails_rederiving b a (storage w) t e)"
  by (auto simp: set_try_def set_fails_before_writing_def set_fails_rederiving_def
      action_defs storage_defs split: option.splits sum.splits)

text \<open>What \<^verbatim>\<open>initializer\<close> returns, and what it leaves alone.\<close>

lemma initializer_value:
  "fst (initializer b k w) =
     Inr (case throws (storage w) (GetItem k) of
            Some e \<Rightarrow> initialValue b
          | None \<Rightarrow> (case items (storage w) k of
                       None \<Rightarrow> initialValue b
                     | Some s \<Rightarrow> (case deserializer b s of
                                   Inl e \<Rightarrow> initialValue b
                                 | Inr d \<Rightarrow> d)))"
  by (auto simp: initializer_def initializer_try_def action_defs storage_defs
      split: option.splits sum.splits)

lemma initializer_frame:
  "held (snd (initializer b k w)) = held w"
  "updates (snd (initializer b k w)) = updates w"
  "mounted (snd (initializer b k w)) = mounted w"
  "throws (storage (snd (initializer b k w))) = throws (storage w)"
  by (auto simp: initializer_def initializer_try_def action_defs storage_defs
      split: option.splits sum.splits)

lemma initializer_storedObject:
  "initializer (b\<lparr>storedObject := x\<rparr>) k = initializer b k"
  by (rule ext)
    (auto simp: initializer_def initializer_try_def action_defs
      split: option.splits sum.splits prod.splits)

lemma reconcile_run:
  "reconcile b w =
     (case initializer b (key b) w of
        (Inl e, w') \<Rightarrow> (Inl e, w')
      | (Inr v, w') \<Rightarrow>
          if isDeepEqual v (held w) then (Inr (), w')
          else (Inr (), w'\<lparr>held := v, updates := Suc (updates w')\<rparr>))"
  by (simp add: reconcile_def useLayoutEffect_def initializer_storedObject action_defs
      split: prod.splits sum.splits)

text \<open>The runs of \<^verbatim>\<open>set\<close> that fail, and the run that succeeds.\<close>

lemma set_fails_before_writing_run:
  "set_fails_before_writing b a (storage w) e \<Longrightarrow>
     set_stored b a w =
       (Inr (),
        w\<lparr>storage := storage w\<lparr>calls := calls (storage w) @
               (case newValue b a of
                  Inl e' \<Rightarrow> []
                | Inr v \<Rightarrow> (case transformedNewValue b v of
                              Inl e' \<Rightarrow> []
                            | Inr t \<Rightarrow> [SetItem (key b) t]))\<rparr>,
          thrown := thrown w @ (case onThrow b of None \<Rightarrow> [] | Some f \<Rightarrow> [e])\<rparr>)"
  by (auto simp: set_stored_def set_try_def set_fails_before_writing_def action_defs
      storage_defs split: option.splits sum.splits)

lemma set_fails_rederiving_run:
  "set_fails_rederiving b a (storage w) t e \<Longrightarrow>
     set_stored b a w =
       (Inr (),
        w\<lparr>storage := storage w\<lparr>items := (items (storage w))(key b \<mapsto> t),
                                calls := calls (storage w) @ [SetItem (key b) t]\<rparr>,
          thrown := thrown w @ (case onThrow b of None \<Rightarrow> [] | Some f \<Rightarrow> [e])\<rparr>)"
  by (auto simp: set_stored_def set_try_def set_fails_rederiving_def action_defs
      storage_defs split: option.splits sum.splits)

lemma set_succeeds_run:
  "newValue b a = Inr v \<Longrightarrow> v \<noteq> Undefined \<Longrightarrow> transformedNewValue b v = Inr t \<Longrightarrow>
   throws (storage w) (SetItem (key b) t) = None \<Longrightarrow>
   (if raw b then Inr v else deserializer b t) = Inr d \<Longrightarrow>
     set_stored b a w =
       (Inr (),
        w\<lparr>storage := storage w\<lparr>items := (items (storage w))(key b \<mapsto> t),
                                calls := calls (storage w) @ [SetItem (key b) t]\<rparr>,
          held := d, updates := Suc (updates w)\<rparr>)"
  by (simp add: set_stored_def set_try_def action_defs storage_defs)

lemma sample_facts:
  "key (structured i s) = ''foo''" "key (reporting i s) = ''foo''"
  "key (undecodable i s) = ''foo''" "key (raw_mode i s) = ''foo''"
  "onThrow (reporting i s) = Some ignore" "onThrow (undecodable i s) = Some ignore"
  "onThrow (structured i s) = None" "onThrow (raw_mode i s) = None"
  "initialValue (structured i s) = i" "initialValue (reporting i s) = i"
  "initialValue (undecodable i s) = i" "initialValue (raw_mode i s) = i"
  by (simp_all add: example_defs)

lemma reconcile_after_read:
  "throws (storage w) (GetItem (key b)) = None \<Longrightarrow> items (storage w) (key b) = Some s \<Longrightarrow>
   deserializer b s = Inr d \<Longrightarrow>
     held (snd (reconcile b w)) = (if isDeepEqual d (held w) then held w else d)"
proof -
  assume "throws (storage w) (GetItem (key b)) = None" "items (storage w) (key b) = Some s"
    "deserializer b s = Inr d"
  then have "fst (initializer b (key b) w) = Inr d"
    by (simp add: initializer_value)
  then obtain w' where run: "initializer b (key b) w = (Inr d, w')"
    by (cases "initializer b (key b) w") auto
  with initializer_frame(1) [of b "key b" w] have "held w' = held w"
    by simp
  with run show ?thesis
    by (simp add: reconcile_run)
qed

lemma destructure_raw:
  "opt_raw opts \<Longrightarrow>
     raw (destructure JSON_parse (Some opts) k initial stored) \<and>
     key (destructure JSON_parse (Some opts) k initial stored) = k \<and>
     deserializer (destructure JSON_parse (Some opts) k initial stored) =
       defaultRawOptions_deserializer"
  by (simp add: destructure_def)

lemma isDeepEqual_Str: "isDeepEqual (Str s) v \<longleftrightarrow> v = Str s"
  by simp

text \<open>Deep equality is transitive; the runs of the reconciler.\<close>

lemma isDeepEqual_Obj:
  "isDeepEqual (Obj ps) b \<longleftrightarrow>
     (\<exists>qs. b = Obj qs \<and> length ps = length qs \<and>
        (\<forall>k \<in> fst ` set ps.
           \<exists>v w. map_of ps k = Some v \<and> map_of qs k = Some w \<and> isDeepEqual v w))"
proof (cases b)
  case (Obj qs)
  have "(case map_of qs k of
           None \<Rightarrow> False
         | Some w \<Rightarrow> (case map_of ps k of None \<Rightarrow> False | Some v \<Rightarrow> isDeepEqual v w)) \<longleftrightarrow>
        (\<exists>v w. map_of ps k = Some v \<and> map_of qs k = Some w \<and> isDeepEqual v w)" for k
    by (cases "map_of qs k"; cases "map_of ps k") simp_all
  with Obj show ?thesis
    by (simp add: list_all_iff)
qed simp_all

lemma isDeepEqual_trans: "isDeepEqual a b \<Longrightarrow> isDeepEqual b c \<Longrightarrow> isDeepEqual a c"
proof (induction a arbitrary: b c)
  case (Arr xs)
  from Arr.prems(1) obtain ys where b: "b = Arr ys" and xy: "length xs = length ys"
    "\<forall>i < length xs. isDeepEqual (xs ! i) (ys ! i)"
    by (cases b) (auto simp: list_all_length)
  from Arr.prems(2) b obtain zs where c: "c = Arr zs" and yz: "length ys = length zs"
    "\<forall>i < length ys. isDeepEqual (ys ! i) (zs ! i)"
    by (cases c) (auto simp: list_all_length)
  have "isDeepEqual (xs ! i) (zs ! i)" if "i < length xs" for i
    using Arr.IH [of "xs ! i" "ys ! i" "zs ! i"] that xy yz by simp
  with xy yz c show ?case
    by (simp add: list_all_length)
next
  case (Obj ps)
  from Obj.prems(1) obtain qs where b: "b = Obj qs" and pq: "length ps = length qs"
    "\<forall>k \<in> fst ` set ps. \<exists>v w. map_of ps k = Some v \<and> map_of qs k = Some w \<and> isDeepEqual v w"
    unfolding isDeepEqual_Obj by blast
  from Obj.prems(2) b have "isDeepEqual (Obj qs) c"
    by simp
  then obtain rs where c: "c = Obj rs" and qr: "length qs = length rs"
    "\<forall>k \<in> fst ` set qs. \<exists>w x. map_of qs k = Some w \<and> map_of rs k = Some x \<and> isDeepEqual w x"
    unfolding isDeepEqual_Obj by blast
  have "\<exists>v x. map_of ps k = Some v \<and> map_of rs k = Some x \<and> isDeepEqual v x"
    if "k \<in> fst ` set ps" for k
  proof -
    from pq(2) that obtain v w where vw: "map_of ps k = Some v" "map_of qs k = Some w"
      "isDeepEqual v w"
      by blast
    from vw(2) have "k \<in> fst ` set qs"
      by (metis domI dom_map_of_conv_image_fst)
    with qr(2) vw(2) obtain x where wx: "map_of rs k = Some x" "isDeepEqual w x"
      by fastforce
    from vw(1) have "(k, v) \<in> set ps"
      by (rule map_of_SomeD)
    then have "isDeepEqual v x"
      using Obj.IH [of "(k, v)" v w x] vw(3) wx(2) by simp
    with vw(1) wx(1) show ?thesis
      by blast
  qed
  with pq(1) qr(1) c show ?case
    unfolding isDeepEqual_Obj by simp
qed simp_all

lemma initializer_seeds_run:
  "seeds b (storage w) t \<Longrightarrow>
     initializer b (key b) w =
       (Inr (initialValue b),
        w\<lparr>storage := storage w\<lparr>items := (items (storage w))(key b \<mapsto> t),
                                calls := calls (storage w) @
                                  [GetItem (key b), SetItem (key b) t]\<rparr>\<rparr>)"
  by (simp add: seeds_def initializer_def initializer_try_def action_defs storage_defs)

lemma reconcile_stable:
  "fst (initializer b (key b) w) = Inr v \<Longrightarrow> isDeepEqual v (held w) \<Longrightarrow>
     held (snd (reconcile b w)) = held w \<and> updates (snd (reconcile b w)) = updates w"
  using initializer_frame [of b "key b" w]
  by (auto simp: reconcile_run split: prod.splits sum.splits)

lemma reconcile_held:
  "fst (initializer b (key b) w) = Inr v \<Longrightarrow>
     held (snd (reconcile b w)) = (if isDeepEqual v (held w) then held w else v)"
  using initializer_frame(1) [of b "key b" w]
  by (auto simp: reconcile_run split: prod.splits sum.splits)

lemma reconcile_storage:
  "storage (snd (reconcile b w)) = storage (snd (initializer b (key b) w))"
  using initializer_returns [of b "key b" w]
  by (auto simp: reconcile_run split: prod.splits sum.splits)

subsection \<open>The tests of the repository, replayed\<close>

text \<open>
  The cases of the test file, run on the model: a stored value is retrieved; an initial
  value is returned and written; a stored value is neither replaced nor rewritten;
  \<^verbatim>\<open>null\<close> can be set; an object is written as its JSON text, from the initial value,
  from an updater and in raw mode; a \<^verbatim>\<open>null\<close> key is rejected.
\<close>

lemmas hook_defs =
  useStorage_def useState_def initializer_def initializer_try_def set_stored_def set_try_def
  newValue_def transformedNewValue_def remove_def remove_try_def

lemma test_retrieves_existing_value:
  "\<exists>b w. useStorage parse_sample (Str ''foo'') Undefined None
            (unmounted (mockStorage [(''foo'', ''\"bar\"'')])) = (Inr b, w) \<and>
          storedObject b = Str ''bar''"
  by (simp add: hook_defs action_defs storage_defs example_defs)

lemma test_returns_initialValue_and_sets_it:
  "\<exists>b w. useStorage parse_sample (Str ''foo'') (Str ''bar'') None
            (unmounted (mockStorage [])) = (Inr b, w) \<and>
          storedObject b = Str ''bar'' \<and>
          calls (storage w) = [GetItem ''foo'', SetItem ''foo'' ''\"bar\"'']"
  by (simp add: hook_defs action_defs storage_defs example_defs)

lemma test_does_not_clobber:
  "\<exists>b w. useStorage parse_sample (Str ''foo'') (Str ''buzz'') None
            (unmounted (mockStorage [(''foo'', ''\"bar\"'')])) = (Inr b, w) \<and>
          storedObject b = Str ''bar'' \<and> calls (storage w) = [GetItem ''foo'']"
  by (simp add: hook_defs action_defs storage_defs example_defs)

lemma test_allows_null_setting:
  "calls (storage (snd (set_stored (structured Undefined Null) (Value Null)
     (holding Null (mockStorage [(''foo'', ''null'')]))))) = [SetItem ''foo'' ''null''] \<and>
   held (snd (set_stored (structured Undefined Null) (Value Null)
     (holding Null (mockStorage [(''foo'', ''null'')])))) = Null"
  by (simp add: hook_defs action_defs storage_defs example_defs)

lemma test_sets_object_initialState:
  "calls (storage (snd (initializer (structured (Obj [(''bar'', Bool True)]) Undefined) ''foo''
     (unmounted (mockStorage []))))) = [GetItem ''foo'', SetItem ''foo'' ''{\"bar\":true}'']"
  by (simp add: hook_defs action_defs storage_defs example_defs)

lemma test_function_updater:
  "calls (storage (snd (set_stored (structured Undefined (Obj [(''foo'', Str ''bar'')]))
     (Updater (\<lambda>state. case state of
                  Obj ps \<Rightarrow> Inr (Obj (ps @ [(''fizz'', Str ''buzz'')]))
                | _ \<Rightarrow> Inl (Error ''TypeError'')))
     (holding (Obj [(''foo'', Str ''bar'')]) (mockStorage []))))) =
   [SetItem ''foo'' ''{\"foo\":\"bar\",\"fizz\":\"buzz\"}'']"
  by (simp add: hook_defs action_defs storage_defs example_defs)

lemma test_raw_update:
  "calls (storage (snd (set_stored (raw_mode Null Null) (Value (Obj [(''fizz'', Str ''bang'')]))
     (holding Null (mockStorage []))))) = [SetItem ''foo'' ''{\"fizz\":\"bang\"}'']"
  by (simp add: hook_defs action_defs storage_defs example_defs)

lemma test_rejects_null_key:
  "fst (useStorage parse_sample Null Undefined None (unmounted (mockStorage []))) =
     Inl (Error ''useStorage key may not be falsy'')"
  by (simp add: hook_defs action_defs)

subsection \<open>The claims\<close>

text \<open>
  C8. For every falsy key (the empty string, \<^verbatim>\<open>null\<close>, \<^verbatim>\<open>undefined\<close>, as any other
  falsy value) entering the binding throws the error
  \<^verbatim>\<open>useStorage key may not be falsy\<close>, whatever the store, the initial value and the
  options. The world is returned as it was: no call has reached the store, the state cell
  has not been initialised, and \<^verbatim>\<open>onThrow\<close> has not been called.
\<close>

theorem useStorage_falsy_key:
  "\<not> truthy k \<Longrightarrow>
     useStorage JSON_parse k initial options w =
       (Inl (Error ''useStorage key may not be falsy''), w)"
  by (simp add: useStorage_def lift_def)

theorem useStorage_falsy_key_witness:
  "\<not> truthy (Str []) \<and>
   useStorage parse_sample (Str []) (Str ''bar'') (Some reporting_options)
       (unmounted (mockStorage [])) =
     (Inl (Error ''useStorage key may not be falsy''), unmounted (mockStorage []))"
  using useStorage_falsy_key [of "Str []" parse_sample "Str ''bar''"
      "Some reporting_options" "unmounted (mockStorage [])"]
  by simp

text \<open>
  C7. If a step of initialization fails with an error (the store read or the store write
  throws, or the serializer or the deserializer throws), the initializer returns
  \<^verbatim>\<open>initialValue\<close>, which may be \<^verbatim>\<open>undefined\<close>; the error has been passed to
  \<^verbatim>\<open>onThrow\<close> when the callback was supplied, whatever the callback returns, and to
  nobody otherwise. The held value is untouched.
\<close>

theorem initializer_failure:
  "initialization_fails b k (storage w) e \<Longrightarrow>
     fst (initializer b k w) = Inr (initialValue b) \<and>
     thrown (snd (initializer b k w)) =
       thrown w @ (case onThrow b of None \<Rightarrow> [] | Some f \<Rightarrow> [e]) \<and>
     held (snd (initializer b k w)) = held w"
proof -
  assume fails: "initialization_fails b k (storage w) e"
  then obtain w' where body: "initializer_try b k w = (Inl e, w')"
    using initializer_try_fails_iff [of b k w e] by (cases "initializer_try b k w") simp
  with initializer_try_thrown [of b k w] have "thrown w' = thrown w"
    by simp
  with body have
    "fst (initializer b k w) = Inr (initialValue b)"
    "thrown (snd (initializer b k w)) =
       thrown w @ (case onThrow b of None \<Rightarrow> [] | Some f \<Rightarrow> [e])"
    by (simp_all add: initializer_def action_defs split: option.splits)
  then show ?thesis
    by (simp add: initializer_frame)
qed

theorem initializer_failure_witness:
  "initialization_fails (reporting (Str ''bar'') Undefined) ''foo''
      (storage (unmounted (restrictedStorage []))) (Error ''SecurityError'') \<and>
   fst (initializer (reporting (Str ''bar'') Undefined) ''foo''
      (unmounted (restrictedStorage []))) = Inr (Str ''bar'') \<and>
   thrown (snd (initializer (reporting (Str ''bar'') Undefined) ''foo''
      (unmounted (restrictedStorage [])))) = [Error ''SecurityError'']"
proof -
  have fails: "initialization_fails (reporting (Str ''bar'') Undefined) ''foo''
      (storage (unmounted (restrictedStorage []))) (Error ''SecurityError'')"
    by (simp add: initialization_fails_def example_defs)
  from initializer_failure [OF fails] fails show ?thesis
    by (simp add: example_defs)
qed

text \<open>
  C6. When the store read returns a present string, initialization makes no other call
  on the store than that read and leaves the entries as they are, and it returns the
  deserialization of the string, whatever \<^verbatim>\<open>initialValue\<close> is: the binding, and with it
  the initial value, is arbitrary.
\<close>

theorem initializer_present:
  "throws (storage w) (GetItem k) = None \<Longrightarrow> items (storage w) k = Some s \<Longrightarrow>
     calls (storage (snd (initializer b k w))) = calls (storage w) @ [GetItem k] \<and>
     items (storage (snd (initializer b k w))) = items (storage w) \<and>
     (\<forall>d. deserializer b s = Inr d \<longrightarrow> fst (initializer b k w) = Inr d)"
proof (intro conjI allI impI)
  assume reads: "throws (storage w) (GetItem k) = None"
    and present: "items (storage w) k = Some s"
  then show "calls (storage (snd (initializer b k w))) = calls (storage w) @ [GetItem k]"
    and "items (storage (snd (initializer b k w))) = items (storage w)"
    by (auto simp: initializer_def initializer_try_def action_defs storage_defs
        split: option.splits sum.splits)
  fix d
  assume "deserializer b s = Inr d"
  with reads present show "fst (initializer b k w) = Inr d"
    by (simp add: initializer_value)
qed

theorem initializer_present_witness:
  "throws (storage (unmounted (mockStorage [(''foo'', ''\"bar\"'')]))) (GetItem ''foo'') = None \<and>
   items (storage (unmounted (mockStorage [(''foo'', ''\"bar\"'')]))) ''foo'' = Some ''\"bar\"'' \<and>
   deserializer (structured (Str ''baz'') Undefined) ''\"bar\"'' = Inr (Str ''bar'') \<and>
   fst (initializer (structured (Str ''baz'') Undefined) ''foo''
          (unmounted (mockStorage [(''foo'', ''\"bar\"'')]))) = Inr (Str ''bar'') \<and>
   calls (storage (snd (initializer (structured (Str ''baz'') Undefined) ''foo''
          (unmounted (mockStorage [(''foo'', ''\"bar\"'')]))))) = [GetItem ''foo''] \<and>
   items (storage (snd (initializer (structured (Str ''baz'') Undefined) ''foo''
          (unmounted (mockStorage [(''foo'', ''\"bar\"'')]))))) ''foo'' = Some ''\"bar\"''"
proof -
  let ?w = "unmounted (mockStorage [(''foo'', ''\"bar\"'')])"
  let ?b = "structured (Str ''baz'') Undefined"
  have reads: "throws (storage ?w) (GetItem ''foo'') = None"
    and present: "items (storage ?w) ''foo'' = Some ''\"bar\"''"
    and decodes: "deserializer ?b ''\"bar\"'' = Inr (Str ''bar'')"
    by (simp_all add: example_defs)
  from initializer_present [OF reads present, of ?b] reads present decodes
  show ?thesis
    by (simp add: unmounted_def mockStorage_def)
qed

text \<open>
  C9. No call of the initializer, of \<^verbatim>\<open>set\<close> or of \<^verbatim>\<open>remove\<close> throws: each returns,
  whether or not a callback \<^verbatim>\<open>onThrow\<close> was supplied. When none was supplied, nothing
  is told of a failure: the record of the errors passed on is as it was.
\<close>

theorem no_propagation:
  "(\<exists>v. fst (initializer b k w) = Inr v) \<and>
   fst (set_stored b a w) = Inr () \<and>
   fst (remove b w) = Inr () \<and>
   (onThrow b = None \<longrightarrow>
      thrown (snd (initializer b k w)) = thrown w \<and>
      thrown (snd (set_stored b a w)) = thrown w \<and>
      thrown (snd (remove b w)) = thrown w)"
proof (intro conjI impI)
  show "\<exists>v. fst (initializer b k w) = Inr v"
    by (rule initializer_returns)
  show "fst (set_stored b a w) = Inr ()"
    by (rule set_stored_returns)
  show "fst (remove b w) = Inr ()"
    by (rule remove_returns)
next
  assume none: "onThrow b = None"
  then have quiet: "thrown (snd (call_onThrow b e w')) = thrown w'" for e w'
    by (simp add: call_onThrow_def)
  show "thrown (snd (initializer b k w)) = thrown w"
    unfolding initializer_def
    by (rule try_catch_silent) (simp_all add: initializer_try_thrown none action_defs)
  show "thrown (snd (set_stored b a w)) = thrown w"
    unfolding set_stored_def
    by (rule try_catch_silent) (simp_all add: set_try_thrown quiet)
  show "thrown (snd (remove b w)) = thrown w"
    unfolding remove_def
    by (rule try_catch_silent) (simp_all add: remove_try_thrown quiet)
qed

theorem no_propagation_witness:
  "onThrow (structured (Str ''bar'') Undefined) = None \<and>
   initialization_fails (structured (Str ''bar'') Undefined) ''foo''
     (restrictedStorage []) (Error ''SecurityError'') \<and>
   set_fails_before_writing (structured (Str ''bar'') Undefined) (Value (Str ''baz''))
     (restrictedStorage []) (Error ''SecurityError'') \<and>
   throws (restrictedStorage []) (RemoveItem ''foo'') = Some (Error ''SecurityError'') \<and>
   fst (initializer (structured (Str ''bar'') Undefined) ''foo''
          (unmounted (restrictedStorage []))) = Inr (Str ''bar'') \<and>
   fst (set_stored (structured (Str ''bar'') Undefined) (Value (Str ''baz''))
          (unmounted (restrictedStorage []))) = Inr () \<and>
   fst (remove (structured (Str ''bar'') Undefined) (unmounted (restrictedStorage []))) = Inr () \<and>
   thrown (snd (initializer (structured (Str ''bar'') Undefined) ''foo''
          (unmounted (restrictedStorage [])))) = [] \<and>
   thrown (snd (set_stored (structured (Str ''bar'') Undefined) (Value (Str ''baz''))
          (unmounted (restrictedStorage [])))) = [] \<and>
   thrown (snd (remove (structured (Str ''bar'') Undefined)
          (unmounted (restrictedStorage [])))) = []"
proof -
  let ?b = "structured (Str ''bar'') Undefined"
  let ?w = "unmounted (restrictedStorage [])"
  have none: "onThrow ?b = None"
    by (simp add: example_defs)
  have fails:
    "initialization_fails ?b ''foo'' (restrictedStorage []) (Error ''SecurityError'')"
    "set_fails_before_writing ?b (Value (Str ''baz'')) (restrictedStorage [])
       (Error ''SecurityError'')"
    "throws (restrictedStorage []) (RemoveItem ''foo'') = Some (Error ''SecurityError'')"
    by (simp_all add: initialization_fails_def set_fails_before_writing_def newValue_def
        transformedNewValue_def example_defs)
  have init: "fst (initializer ?b ''foo'' ?w) = Inr (Str ''bar'')"
    by (simp add: initializer_value example_defs)
  from no_propagation [of ?b "''foo''" ?w "Value (Str ''baz'')"] none fails init
  show ?thesis
    by (simp add: unmounted_def)
qed

text \<open>
  C1, as stated, fails: when the re-derivation of the held value throws, the store has
  already been written. With the rejecting deserializer, \<^verbatim>\<open>set("baz")\<close> on a store
  that holds \<^verbatim>\<open>"bar"\<close> under the key passes the error to \<^verbatim>\<open>onThrow\<close> and keeps the
  held value, but the entry now reads \<^verbatim>\<open>"baz"\<close>.
\<close>

theorem set_failure_counterexample:
  "set_fails_rederiving (undecodable (Str ''bar'') (Str ''bar'')) (Value (Str ''baz''))
     (storage (holding (Str ''bar'') (mockStorage [(''foo'', ''\"bar\"'')])))
     ''\"baz\"'' (Error ''SyntaxError'') \<and>
   thrown (snd (set_stored (undecodable (Str ''bar'') (Str ''bar'')) (Value (Str ''baz''))
     (holding (Str ''bar'') (mockStorage [(''foo'', ''\"bar\"'')])))) = [Error ''SyntaxError''] \<and>
   held (snd (set_stored (undecodable (Str ''bar'') (Str ''bar'')) (Value (Str ''baz''))
     (holding (Str ''bar'') (mockStorage [(''foo'', ''\"bar\"'')])))) = Str ''bar'' \<and>
   items (storage (holding (Str ''bar'') (mockStorage [(''foo'', ''\"bar\"'')]))) ''foo'' =
     Some ''\"bar\"'' \<and>
   items (storage (snd (set_stored (undecodable (Str ''bar'') (Str ''bar'')) (Value (Str ''baz''))
     (holding (Str ''bar'') (mockStorage [(''foo'', ''\"bar\"'')]))))) ''foo'' = Some ''\"baz\"''"
proof -
  let ?b = "undecodable (Str ''bar'') (Str ''bar'')"
  let ?w = "holding (Str ''bar'') (mockStorage [(''foo'', ''\"bar\"'')])"
  have fails: "set_fails_rederiving ?b (Value (Str ''baz'')) (storage ?w) ''\"baz\"''
      (Error ''SyntaxError'')"
    by (simp add: set_fails_rederiving_def newValue_def transformedNewValue_def example_defs)
  from set_fails_rederiving_run [OF fails] fails show ?thesis
    by (simp add: sample_facts holding_def mockStorage_def)
qed

text \<open>
  C1, amended. If the updater, the serializer or the store write of \<^verbatim>\<open>set\<close> throws, the
  call returns, the error has been passed to \<^verbatim>\<open>onThrow\<close> (when supplied), and the held
  value and the entries of the store are what they were. If the re-derivation of the held
  value throws, the call returns, the error has been passed to \<^verbatim>\<open>onThrow\<close> and the
  held value is what it was, but the store entry for the key holds the newly serialized
  value.
\<close>

theorem set_failure:
  "(set_fails_before_writing b a (storage w) e \<longrightarrow>
      fst (set_stored b a w) = Inr () \<and>
      thrown (snd (set_stored b a w)) =
        thrown w @ (case onThrow b of None \<Rightarrow> [] | Some f \<Rightarrow> [e]) \<and>
      held (snd (set_stored b a w)) = held w \<and>
      updates (snd (set_stored b a w)) = updates w \<and>
      items (storage (snd (set_stored b a w))) = items (storage w)) \<and>
   (set_fails_rederiving b a (storage w) t e \<longrightarrow>
      fst (set_stored b a w) = Inr () \<and>
      thrown (snd (set_stored b a w)) =
        thrown w @ (case onThrow b of None \<Rightarrow> [] | Some f \<Rightarrow> [e]) \<and>
      held (snd (set_stored b a w)) = held w \<and>
      updates (snd (set_stored b a w)) = updates w \<and>
      items (storage (snd (set_stored b a w))) = (items (storage w))(key b \<mapsto> t))"
proof (intro conjI impI)
  assume "set_fails_before_writing b a (storage w) e"
  from set_fails_before_writing_run [OF this]
  show "fst (set_stored b a w) = Inr ()"
    and "thrown (snd (set_stored b a w)) =
        thrown w @ (case onThrow b of None \<Rightarrow> [] | Some f \<Rightarrow> [e])"
    and "held (snd (set_stored b a w)) = held w"
    and "updates (snd (set_stored b a w)) = updates w"
    and "items (storage (snd (set_stored b a w))) = items (storage w)"
    by simp_all
next
  assume "set_fails_rederiving b a (storage w) t e"
  from set_fails_rederiving_run [OF this]
  show "fst (set_stored b a w) = Inr ()"
    and "thrown (snd (set_stored b a w)) =
        thrown w @ (case onThrow b of None \<Rightarrow> [] | Some f \<Rightarrow> [e])"
    and "held (snd (set_stored b a w)) = held w"
    and "updates (snd (set_stored b a w)) = updates w"
    and "items (storage (snd (set_stored b a w))) = (items (storage w))(key b \<mapsto> t)"
    by simp_all
qed

theorem set_failure_witness:
  "set_fails_before_writing (reporting (Str ''bar'') (Str ''bar'')) (Value (Str ''baz''))
     (storage (holding (Str ''bar'') (restrictedStorage [(''foo'', ''\"bar\"'')])))
     (Error ''SecurityError'') \<and>
   thrown (snd (set_stored (reporting (Str ''bar'') (Str ''bar'')) (Value (Str ''baz''))
     (holding (Str ''bar'') (restrictedStorage [(''foo'', ''\"bar\"'')])))) =
     [Error ''SecurityError''] \<and>
   held (snd (set_stored (reporting (Str ''bar'') (Str ''bar'')) (Value (Str ''baz''))
     (holding (Str ''bar'') (restrictedStorage [(''foo'', ''\"bar\"'')])))) = Str ''bar'' \<and>
   items (storage (snd (set_stored (reporting (Str ''bar'') (Str ''bar'')) (Value (Str ''baz''))
     (holding (Str ''bar'') (restrictedStorage [(''foo'', ''\"bar\"'')]))))) ''foo'' =
     Some ''\"bar\"'' \<and>
   set_fails_rederiving (undecodable (Str ''bar'') (Str ''bar'')) (Value (Str ''baz''))
     (storage (holding (Str ''bar'') (mockStorage [(''foo'', ''\"bar\"'')])))
     ''\"baz\"'' (Error ''SyntaxError'') \<and>
   thrown (snd (set_stored (undecodable (Str ''bar'') (Str ''bar'')) (Value (Str ''baz''))
     (holding (Str ''bar'') (mockStorage [(''foo'', ''\"bar\"'')])))) = [Error ''SyntaxError''] \<and>
   held (snd (set_stored (undecodable (Str ''bar'') (Str ''bar'')) (Value (Str ''baz''))
     (holding (Str ''bar'') (mockStorage [(''foo'', ''\"bar\"'')])))) = Str ''bar'' \<and>
   items (storage (snd (set_stored (undecodable (Str ''bar'') (Str ''bar'')) (Value (Str ''baz''))
     (holding (Str ''bar'') (mockStorage [(''foo'', ''\"bar\"'')]))))) ''foo'' = Some ''\"baz\"''"
proof -
  let ?r = "reporting (Str ''bar'') (Str ''bar'')"
  let ?u = "undecodable (Str ''bar'') (Str ''bar'')"
  let ?denied = "holding (Str ''bar'') (restrictedStorage [(''foo'', ''\"bar\"'')])"
  let ?open = "holding (Str ''bar'') (mockStorage [(''foo'', ''\"bar\"'')])"
  have before: "set_fails_before_writing ?r (Value (Str ''baz'')) (storage ?denied)
      (Error ''SecurityError'')"
    by (simp add: set_fails_before_writing_def newValue_def transformedNewValue_def example_defs)
  have after: "set_fails_rederiving ?u (Value (Str ''baz'')) (storage ?open) ''\"baz\"''
      (Error ''SyntaxError'')"
    by (simp add: set_fails_rederiving_def newValue_def transformedNewValue_def example_defs)
  from set_failure [of ?r "Value (Str ''baz'')" ?denied "Error ''SecurityError''"]
    set_failure [of ?u "Value (Str ''baz'')" ?open "Error ''SyntaxError''" "''\"baz\"''"]
    before after
  show ?thesis
    by (simp add: sample_facts holding_def mockStorage_def restrictedStorage_def)
qed

text \<open>
  C2, as stated, fails on a supplied initial value that is falsy: with the initial value
  \<^verbatim>\<open>0\<close> and an empty store the initializer returns \<^verbatim>\<open>0\<close> and calls the store for
  the read only. The write \<^verbatim>\<open>setItem("foo", "0")\<close> of the claim is not made, and the
  entry stays absent.
\<close>

theorem initializer_absent_counterexample:
  "throws (storage (unmounted (mockStorage []))) (GetItem ''foo'') = None \<and>
   items (storage (unmounted (mockStorage []))) ''foo'' = None \<and>
   initialValue (structured (Num 0) Undefined) = Num 0 \<and>
   serializer (structured (Num 0) Undefined) (Num 0) = Inr ''0'' \<and>
   fst (initializer (structured (Num 0) Undefined) ''foo'' (unmounted (mockStorage []))) =
     Inr (Num 0) \<and>
   calls (storage (snd (initializer (structured (Num 0) Undefined) ''foo''
     (unmounted (mockStorage []))))) = [GetItem ''foo''] \<and>
   items (storage (snd (initializer (structured (Num 0) Undefined) ''foo''
     (unmounted (mockStorage []))))) ''foo'' = None"
  by (simp add: initializer_def initializer_try_def action_defs storage_defs example_defs)

text \<open>
  C2, amended. When the store read reports absence: for a truthy \<^verbatim>\<open>initialValue\<close> whose
  serialization succeeds, the initializer calls \<^verbatim>\<open>setItem(key, serializer(initialValue))\<close>
  after the read (the entry holds the serialized value when that call does not throw) and
  returns \<^verbatim>\<open>initialValue\<close>; for a falsy \<^verbatim>\<open>initialValue\<close> (\<^verbatim>\<open>undefined\<close>, which is also
  what an omitted one is, \<^verbatim>\<open>null\<close>, \<^verbatim>\<open>false\<close>, \<^verbatim>\<open>0\<close>, the empty string) it returns
  \<^verbatim>\<open>initialValue\<close> and makes no call on the store but the read.
\<close>

theorem initializer_absent:
  "throws (storage w) (GetItem k) = None \<Longrightarrow> items (storage w) k = None \<Longrightarrow>
     (truthy (initialValue b) \<longrightarrow> serializer b (initialValue b) = Inr t \<longrightarrow>
        fst (initializer b k w) = Inr (initialValue b) \<and>
        calls (storage (snd (initializer b k w))) =
          calls (storage w) @ [GetItem k, SetItem k t] \<and>
        (throws (storage w) (SetItem k t) = None \<longrightarrow>
           items (storage (snd (initializer b k w))) = (items (storage w))(k \<mapsto> t))) \<and>
     (\<not> truthy (initialValue b) \<longrightarrow>
        fst (initializer b k w) = Inr (initialValue b) \<and>
        calls (storage (snd (initializer b k w))) = calls (storage w) @ [GetItem k] \<and>
        items (storage (snd (initializer b k w))) = items (storage w))"
proof -
  assume reads: "throws (storage w) (GetItem k) = None"
    and absent: "items (storage w) k = None"
  then have result: "fst (initializer b k w) = Inr (initialValue b)"
    by (simp add: initializer_value)
  have seeded:
    "calls (storage (snd (initializer b k w))) = calls (storage w) @ [GetItem k, SetItem k t] \<and>
     (throws (storage w) (SetItem k t) = None \<longrightarrow>
        items (storage (snd (initializer b k w))) = (items (storage w))(k \<mapsto> t))"
    if "truthy (initialValue b)" and "serializer b (initialValue b) = Inr t"
    using that reads absent
    by (simp add: initializer_def initializer_try_def action_defs storage_defs
        split: option.splits)
  have skipped:
    "calls (storage (snd (initializer b k w))) = calls (storage w) @ [GetItem k] \<and>
     items (storage (snd (initializer b k w))) = items (storage w)"
    if "\<not> truthy (initialValue b)"
    using that reads absent
    by (simp add: initializer_def initializer_try_def action_defs storage_defs)
  from result seeded skipped show ?thesis
    by blast
qed

theorem initializer_absent_witness:
  "throws (storage (unmounted (mockStorage []))) (GetItem ''foo'') = None \<and>
   items (storage (unmounted (mockStorage []))) ''foo'' = None \<and>
   truthy (initialValue (structured (Str ''bar'') Undefined)) \<and>
   serializer (structured (Str ''bar'') Undefined)
     (initialValue (structured (Str ''bar'') Undefined)) = Inr ''\"bar\"'' \<and>
   throws (storage (unmounted (mockStorage []))) (SetItem ''foo'' ''\"bar\"'') = None \<and>
   fst (initializer (structured (Str ''bar'') Undefined) ''foo'' (unmounted (mockStorage []))) =
     Inr (Str ''bar'') \<and>
   calls (storage (snd (initializer (structured (Str ''bar'') Undefined) ''foo''
     (unmounted (mockStorage []))))) = [GetItem ''foo'', SetItem ''foo'' ''\"bar\"''] \<and>
   items (storage (snd (initializer (structured (Str ''bar'') Undefined) ''foo''
     (unmounted (mockStorage []))))) ''foo'' = Some ''\"bar\"'' \<and>
   \<not> truthy (initialValue (structured Undefined Undefined)) \<and>
   fst (initializer (structured Undefined Undefined) ''foo'' (unmounted (mockStorage []))) =
     Inr Undefined \<and>
   calls (storage (snd (initializer (structured Undefined Undefined) ''foo''
     (unmounted (mockStorage []))))) = [GetItem ''foo''] \<and>
   items (storage (snd (initializer (structured Undefined Undefined) ''foo''
     (unmounted (mockStorage []))))) ''foo'' = None"
proof -
  let ?w = "unmounted (mockStorage [])"
  let ?b = "structured (Str ''bar'') Undefined"
  let ?u = "structured Undefined Undefined"
  have reads: "throws (storage ?w) (GetItem ''foo'') = None"
    and absent: "items (storage ?w) ''foo'' = None"
    and writes: "throws (storage ?w) (SetItem ''foo'' ''\"bar\"'') = None"
    by (simp_all add: example_defs)
  have given: "truthy (initialValue ?b)"
    "serializer ?b (initialValue ?b) = Inr ''\"bar\"''"
    "\<not> truthy (initialValue ?u)"
    by (simp_all add: example_defs)
  from initializer_absent [OF reads absent, of ?b "''\"bar\"''"]
    initializer_absent [OF reads absent, of ?u]
    reads absent writes given
  show ?thesis
    by (simp add: sample_facts unmounted_def mockStorage_def)
qed

text \<open>
  C3 does not hold of the initializer. In raw mode the serializer is \<^verbatim>\<open>String\<close>, and
  the initializer seeds the store with it: for the initial value \<^verbatim>\<open>{ok: true}\<close> and an
  empty store it writes \<^verbatim>\<open>[object Object]\<close>, not the structured encode
  \<^verbatim>\<open>{"ok":true}\<close>, which is what \<^verbatim>\<open>set\<close> writes for the same value in the same
  mode.
\<close>

theorem raw_initializer_seeds_String:
  "raw (raw_mode (Obj [(''ok'', Bool True)]) Undefined) \<and>
   JSON_stringify (Obj [(''ok'', Bool True)]) = Some ''{\"ok\":true}'' \<and>
   calls (storage (snd (initializer (raw_mode (Obj [(''ok'', Bool True)]) Undefined) ''foo''
     (unmounted (mockStorage []))))) = [GetItem ''foo'', SetItem ''foo'' ''[object Object]''] \<and>
   items (storage (snd (initializer (raw_mode (Obj [(''ok'', Bool True)]) Undefined) ''foo''
     (unmounted (mockStorage []))))) ''foo'' = Some ''[object Object]'' \<and>
   calls (storage (snd (set_stored (raw_mode (Obj [(''ok'', Bool True)]) Undefined)
     (Value (Obj [(''ok'', Bool True)])) (unmounted (mockStorage []))))) =
     [SetItem ''foo'' ''{\"ok\":true}'']"
  by (simp add: initializer_def initializer_try_def set_stored_def set_try_def newValue_def
      transformedNewValue_def action_defs storage_defs example_defs)

text \<open>
  C4, as stated, fails when the first of the two runs seeds the store itself and the
  seeded text does not read back as the initial value. With the initial value
  \<^verbatim>\<open>[undefined]\<close>, an empty store and nothing held (the state after \<^verbatim>\<open>remove\<close>), the
  first run writes \<^verbatim>\<open>[null]\<close> and holds \<^verbatim>\<open>[undefined]\<close>; the second run, with nothing
  done to the store in between, reads \<^verbatim>\<open>[null]\<close> back, which is not deep-equal, and
  replaces the held reference.
\<close>

theorem reconcile_twice_counterexample:
  "held (holding Undefined (mockStorage [])) = Undefined \<and>
   items (storage (holding Undefined (mockStorage []))) ''foo'' = None \<and>
   held (snd (reconcile (structured (Arr [Undefined]) Undefined)
     (holding Undefined (mockStorage [])))) = Arr [Undefined] \<and>
   updates (snd (reconcile (structured (Arr [Undefined]) Undefined)
     (holding Undefined (mockStorage [])))) = 1 \<and>
   items (storage (snd (reconcile (structured (Arr [Undefined]) Undefined)
     (holding Undefined (mockStorage []))))) ''foo'' = Some ''[null]'' \<and>
   held (snd (reconcile (structured (Arr [Undefined]) Undefined)
     (snd (reconcile (structured (Arr [Undefined]) Undefined)
       (holding Undefined (mockStorage [])))))) = Arr [Null] \<and>
   updates (snd (reconcile (structured (Arr [Undefined]) Undefined)
     (snd (reconcile (structured (Arr [Undefined]) Undefined)
       (holding Undefined (mockStorage [])))))) = 2 \<and>
   items (storage (snd (reconcile (structured (Arr [Undefined]) Undefined)
     (snd (reconcile (structured (Arr [Undefined]) Undefined)
       (holding Undefined (mockStorage []))))))) ''foo'' = Some ''[null]''"
proof -
  let ?b = "structured (Arr [Undefined]) Undefined"
  have first: "reconcile ?b (holding Undefined (mockStorage [])) =
      (Inr (),
       \<lparr>storage = \<lparr>items = [''foo'' \<mapsto> ''[null]''], throws = (\<lambda>a. None),
                   calls = [GetItem ''foo'', SetItem ''foo'' ''[null]'']\<rparr>,
        mounted = True, held = Arr [Undefined], updates = Suc 0, thrown = []\<rparr>)"
    by (simp add: reconcile_run initializer_def initializer_try_def action_defs storage_defs
        example_defs)
  have second: "reconcile ?b
       \<lparr>storage = \<lparr>items = [''foo'' \<mapsto> ''[null]''], throws = (\<lambda>a. None),
                   calls = [GetItem ''foo'', SetItem ''foo'' ''[null]'']\<rparr>,
        mounted = True, held = Arr [Undefined], updates = Suc 0, thrown = []\<rparr> =
      (Inr (),
       \<lparr>storage = \<lparr>items = [''foo'' \<mapsto> ''[null]''], throws = (\<lambda>a. None),
                   calls = [GetItem ''foo'', SetItem ''foo'' ''[null]'', GetItem ''foo'']\<rparr>,
        mounted = True, held = Arr [Null], updates = Suc (Suc 0), thrown = []\<rparr>)"
    by (simp add: reconcile_run initializer_def initializer_try_def action_defs storage_defs
        example_defs)
  show ?thesis
    by (simp add: first second) (simp add: holding_def mockStorage_def)
qed

text \<open>
  C4, amended. Take the reconciler twice in a row. The second run changes neither the
  held value nor the number of times the held reference has been replaced (what is held
  after it is the very reference held after the first run) when the first run left the
  store entry for the key as it found it, and also when the first run seeded the entry
  and the seeded text reads back as a value deep-equal to \<^verbatim>\<open>initialValue\<close>. And in any
  run, when the freshly initialized value is deep-equal to the held value, the held
  reference is not replaced.
\<close>

theorem reconcile_twice:
  "(items (storage (snd (reconcile b w))) (key b) = items (storage w) (key b) \<longrightarrow>
      held (snd (reconcile b (snd (reconcile b w)))) = held (snd (reconcile b w)) \<and>
      updates (snd (reconcile b (snd (reconcile b w)))) = updates (snd (reconcile b w))) \<and>
   (seeds b (storage w) t \<longrightarrow> reads_back b t \<longrightarrow>
      held (snd (reconcile b (snd (reconcile b w)))) = held (snd (reconcile b w)) \<and>
      updates (snd (reconcile b (snd (reconcile b w)))) = updates (snd (reconcile b w))) \<and>
   (\<forall>v. fst (initializer b (key b) w) = Inr v \<longrightarrow> isDeepEqual v (held w) \<longrightarrow>
      held (snd (reconcile b w)) = held w \<and>
      updates (snd (reconcile b w)) = updates w)"
proof (intro conjI impI allI)
  fix v
  assume "fst (initializer b (key b) w) = Inr v" and "isDeepEqual v (held w)"
  then show "held (snd (reconcile b w)) = held w" "updates (snd (reconcile b w)) = updates w"
    by (simp_all add: reconcile_stable)
next
  let ?w1 = "snd (reconcile b w)"
  assume same: "items (storage ?w1) (key b) = items (storage w) (key b)"
  obtain v where run: "fst (initializer b (key b) w) = Inr v"
    using initializer_returns by blast
  have t1: "throws (storage ?w1) = throws (storage w)"
    by (simp add: reconcile_storage initializer_frame)
  have "fst (initializer b (key b) ?w1) = fst (initializer b (key b) w)"
    by (simp only: initializer_value same t1)
  with run have run2: "fst (initializer b (key b) ?w1) = Inr v"
    by simp
  have "isDeepEqual v (held ?w1)"
    using reconcile_held [OF run] by (simp add: isDeepEqual_refl)
  with run2 show "held (snd (reconcile b ?w1)) = held ?w1"
    and "updates (snd (reconcile b ?w1)) = updates ?w1"
    by (simp_all add: reconcile_stable)
next
  let ?w1 = "snd (reconcile b w)"
  assume seeded: "seeds b (storage w) t" and faithful: "reads_back b t"
  from initializer_seeds_run [OF seeded]
  have run: "fst (initializer b (key b) w) = Inr (initialValue b)"
    and entry: "items (storage (snd (initializer b (key b) w))) (key b) = Some t"
    by simp_all
  have t1: "throws (storage ?w1) (GetItem (key b)) = None"
    using seeded by (simp add: reconcile_storage initializer_frame seeds_def)
  have i1: "items (storage ?w1) (key b) = Some t"
    using entry by (simp add: reconcile_storage)
  define v where "v = (case deserializer b t of Inl e \<Rightarrow> initialValue b | Inr d \<Rightarrow> d)"
  have run2: "fst (initializer b (key b) ?w1) = Inr v"
    by (simp add: initializer_value t1 i1 v_def)
  have near: "isDeepEqual v (initialValue b)"
    using faithful by (simp add: reads_back_def v_def isDeepEqual_refl split: sum.splits)
  have "isDeepEqual v (held ?w1)"
  proof (cases "isDeepEqual (initialValue b) (held w)")
    case True
    with reconcile_held [OF run] have "held ?w1 = held w"
      by simp
    with near True show ?thesis
      by (auto intro: isDeepEqual_trans)
  next
    case False
    with reconcile_held [OF run] have "held ?w1 = initialValue b"
      by simp
    with near show ?thesis
      by simp
  qed
  with run2 show "held (snd (reconcile b ?w1)) = held ?w1"
    and "updates (snd (reconcile b ?w1)) = updates ?w1"
    by (simp_all add: reconcile_stable)
qed

theorem reconcile_twice_witness:
  "items (storage (snd (reconcile (structured Undefined Undefined)
      (holding Null (mockStorage [(''foo'', ''{\"ok\":true}'')]))))) ''foo'' =
     items (storage (holding Null (mockStorage [(''foo'', ''{\"ok\":true}'')]))) ''foo'' \<and>
   held (snd (reconcile (structured Undefined Undefined)
      (holding Null (mockStorage [(''foo'', ''{\"ok\":true}'')])))) = Obj [(''ok'', Bool True)] \<and>
   updates (snd (reconcile (structured Undefined Undefined)
      (holding Null (mockStorage [(''foo'', ''{\"ok\":true}'')])))) = 1 \<and>
   held (snd (reconcile (structured Undefined Undefined)
      (snd (reconcile (structured Undefined Undefined)
        (holding Null (mockStorage [(''foo'', ''{\"ok\":true}'')])))))) =
     Obj [(''ok'', Bool True)] \<and>
   updates (snd (reconcile (structured Undefined Undefined)
      (snd (reconcile (structured Undefined Undefined)
        (holding Null (mockStorage [(''foo'', ''{\"ok\":true}'')])))))) = 1 \<and>
   seeds (structured (Obj [(''ok'', Bool True)]) Undefined)
     (storage (holding Undefined (mockStorage []))) ''{\"ok\":true}'' \<and>
   reads_back (structured (Obj [(''ok'', Bool True)]) Undefined) ''{\"ok\":true}'' \<and>
   held (snd (reconcile (structured (Obj [(''ok'', Bool True)]) Undefined)
      (holding Undefined (mockStorage [])))) = Obj [(''ok'', Bool True)] \<and>
   updates (snd (reconcile (structured (Obj [(''ok'', Bool True)]) Undefined)
      (holding Undefined (mockStorage [])))) = 1 \<and>
   items (storage (snd (reconcile (structured (Obj [(''ok'', Bool True)]) Undefined)
      (holding Undefined (mockStorage []))))) ''foo'' = Some ''{\"ok\":true}'' \<and>
   held (snd (reconcile (structured (Obj [(''ok'', Bool True)]) Undefined)
      (snd (reconcile (structured (Obj [(''ok'', Bool True)]) Undefined)
        (holding Undefined (mockStorage [])))))) = Obj [(''ok'', Bool True)] \<and>
   updates (snd (reconcile (structured (Obj [(''ok'', Bool True)]) Undefined)
      (snd (reconcile (structured (Obj [(''ok'', Bool True)]) Undefined)
        (holding Undefined (mockStorage [])))))) = 1 \<and>
   fst (initializer (structured Undefined Undefined) ''foo''
      (holding (Obj [(''ok'', Bool True)]) (mockStorage [(''foo'', ''{\"ok\":true}'')]))) =
     Inr (Obj [(''ok'', Bool True)]) \<and>
   isDeepEqual (Obj [(''ok'', Bool True)])
     (held (holding (Obj [(''ok'', Bool True)]) (mockStorage [(''foo'', ''{\"ok\":true}'')]))) \<and>
   held (snd (reconcile (structured Undefined Undefined)
      (holding (Obj [(''ok'', Bool True)]) (mockStorage [(''foo'', ''{\"ok\":true}'')])))) =
     Obj [(''ok'', Bool True)] \<and>
   updates (snd (reconcile (structured Undefined Undefined)
      (holding (Obj [(''ok'', Bool True)]) (mockStorage [(''foo'', ''{\"ok\":true}'')])))) = 0"
proof -
  let ?b = "structured Undefined Undefined"
  let ?st = "mockStorage [(''foo'', ''{\"ok\":true}'')]"
  let ?ok = "Obj [(''ok'', Bool True)]"
  let ?seeding = "structured ?ok Undefined"
  let ?empty = "holding Undefined (mockStorage [])"
  have first: "reconcile ?b (holding Null ?st) =
      (Inr (), (holding ?ok ?st)\<lparr>storage := ?st\<lparr>calls := [GetItem ''foo'']\<rparr>, updates := 1\<rparr>)"
    by (simp add: reconcile_run initializer_def initializer_try_def action_defs storage_defs
        example_defs)
  then have same: "items (storage (snd (reconcile ?b (holding Null ?st)))) (key ?b) =
      items (storage (holding Null ?st)) (key ?b)"
    by (simp add: holding_def)
  have seeded: "seeds ?seeding (storage ?empty) ''{\"ok\":true}''"
    and faithful: "reads_back ?seeding ''{\"ok\":true}''"
    by (simp_all add: seeds_def reads_back_def example_defs)
  have sown: "reconcile ?seeding ?empty =
      (Inr (),
       (holding ?ok (mockStorage []))
         \<lparr>storage := \<lparr>items = [''foo'' \<mapsto> ''{\"ok\":true}''], throws = (\<lambda>a. None),
                       calls = [GetItem ''foo'', SetItem ''foo'' ''{\"ok\":true}'']\<rparr>,
          updates := 1\<rparr>)"
    by (simp add: reconcile_run initializer_def initializer_try_def action_defs storage_defs
        example_defs)
  have read: "fst (initializer ?b (key ?b) (holding ?ok ?st)) = Inr ?ok"
    by (simp add: initializer_value example_defs)
  have equal: "isDeepEqual ?ok (held (holding ?ok ?st))"
    by (simp add: holding_def)
  from reconcile_twice [of ?b "holding Null ?st"]
    reconcile_twice [of ?seeding ?empty "''{\"ok\":true}''"]
    reconcile_twice [of ?b "holding ?ok ?st"]
    first same seeded faithful sown read equal
  show ?thesis
    by (simp add: sample_facts holding_def)
qed

text \<open>
  C5. In structured mode, for a defined value \<open>v\<close> whose serialization \<open>t\<close> is
  written without the store throwing, and whose re-derivation \<open>deserializer t\<close> is the
  value \<open>d\<close>: after \<^verbatim>\<open>set(v)\<close> the held value is \<open>d\<close>, not \<open>v\<close> itself. When the
  store can be read, the held value is still \<open>d\<close> after the reconciliation that
  follows, so it deep-equals \<open>v\<close> whenever \<open>d\<close> does.
\<close>

theorem set_then_reconcile:
  "\<not> raw b \<Longrightarrow> v \<noteq> Undefined \<Longrightarrow> serializer b v = Inr t \<Longrightarrow>
   throws (storage w) (SetItem (key b) t) = None \<Longrightarrow> deserializer b t = Inr d \<Longrightarrow>
     held (snd (set_stored b (Value v) w)) = d \<and>
     (throws (storage w) (GetItem (key b)) = None \<longrightarrow>
        held (snd (reconcile b (snd (set_stored b (Value v) w)))) = d \<and>
        (isDeepEqual d v \<longrightarrow>
           isDeepEqual (held (snd (reconcile b (snd (set_stored b (Value v) w))))) v))"
proof -
  assume structured: "\<not> raw b" and defined: "v \<noteq> Undefined"
    and serialized: "serializer b v = Inr t"
    and written: "throws (storage w) (SetItem (key b) t) = None"
    and derived: "deserializer b t = Inr d"
  let ?w1 = "snd (set_stored b (Value v) w)"
  have "set_stored b (Value v) w =
      (Inr (),
       w\<lparr>storage := storage w\<lparr>items := (items (storage w))(key b \<mapsto> t),
                               calls := calls (storage w) @ [SetItem (key b) t]\<rparr>,
         held := d, updates := Suc (updates w)\<rparr>)"
    using structured defined serialized written derived
    by (intro set_succeeds_run) (simp_all add: newValue_def transformedNewValue_def)
  then have w1: "held ?w1 = d" "items (storage ?w1) (key b) = Some t"
    "throws (storage ?w1) = throws (storage w)"
    by simp_all
  have "held (snd (reconcile b ?w1)) = d" if "throws (storage w) (GetItem (key b)) = None"
    using reconcile_after_read [of ?w1 b t d] that w1 derived by simp
  with w1(1) show ?thesis
    by simp
qed

theorem set_then_reconcile_witness:
  "\<not> raw (structured (Str ''bar'') (Str ''bar'')) \<and>
   Str ''baz'' \<noteq> Undefined \<and>
   serializer (structured (Str ''bar'') (Str ''bar'')) (Str ''baz'') = Inr ''\"baz\"'' \<and>
   throws (storage (holding (Str ''bar'') (mockStorage [(''foo'', ''\"bar\"'')])))
     (SetItem (key (structured (Str ''bar'') (Str ''bar''))) ''\"baz\"'') = None \<and>
   deserializer (structured (Str ''bar'') (Str ''bar'')) ''\"baz\"'' = Inr (Str ''baz'') \<and>
   throws (storage (holding (Str ''bar'') (mockStorage [(''foo'', ''\"bar\"'')])))
     (GetItem (key (structured (Str ''bar'') (Str ''bar'')))) = None \<and>
   isDeepEqual (Str ''baz'') (Str ''baz'') \<and>
   held (snd (set_stored (structured (Str ''bar'') (Str ''bar'')) (Value (Str ''baz''))
     (holding (Str ''bar'') (mockStorage [(''foo'', ''\"bar\"'')])))) = Str ''baz'' \<and>
   held (snd (reconcile (structured (Str ''bar'') (Str ''bar''))
     (snd (set_stored (structured (Str ''bar'') (Str ''bar'')) (Value (Str ''baz''))
       (holding (Str ''bar'') (mockStorage [(''foo'', ''\"bar\"'')])))))) = Str ''baz'' \<and>
   isDeepEqual (held (snd (reconcile (structured (Str ''bar'') (Str ''bar''))
     (snd (set_stored (structured (Str ''bar'') (Str ''bar'')) (Value (Str ''baz''))
       (holding (Str ''bar'') (mockStorage [(''foo'', ''\"bar\"'')]))))))) (Str ''baz'')"
proof -
  let ?b = "structured (Str ''bar'') (Str ''bar'')"
  let ?w = "holding (Str ''bar'') (mockStorage [(''foo'', ''\"bar\"'')])"
  have mode: "\<not> raw ?b" and defined: "Str ''baz'' \<noteq> Undefined"
    and serialized: "serializer ?b (Str ''baz'') = Inr ''\"baz\"''"
    and written: "throws (storage ?w) (SetItem (key ?b) ''\"baz\"'') = None"
    and derived: "deserializer ?b ''\"baz\"'' = Inr (Str ''baz'')"
    and reads: "throws (storage ?w) (GetItem (key ?b)) = None"
    by (simp_all add: example_defs)
  from set_then_reconcile [OF mode defined serialized written derived]
    mode serialized written derived reads
  show ?thesis
    by simp
qed

text \<open>
  C10. In raw mode, \<^verbatim>\<open>set(v)\<close> with a defined value \<open>v\<close> that is not a string, on
  a store whose write does not throw, writes the structured encode
  \<^verbatim>\<open>JSON.stringify(v)\<close> under the key and holds \<open>v\<close> itself. A fresh read of the
  store then yields that encode as a string, which is not the held value, and the next
  reconciliation replaces the held value by the stored string.
\<close>

theorem raw_set_holds_value:
  "opt_raw opts \<Longrightarrow> b = destructure JSON_parse (Some opts) k initial stored \<Longrightarrow>
   v \<noteq> Undefined \<Longrightarrow> \<not> is_string v \<Longrightarrow>
   throws (storage w) (SetItem k (stringified v)) = None \<Longrightarrow>
     JSON_stringify v = Some (stringified v) \<and>
     items (storage (snd (set_stored b (Value v) w))) k = Some (stringified v) \<and>
     held (snd (set_stored b (Value v) w)) = v \<and>
     (throws (storage w) (GetItem k) = None \<longrightarrow>
        fst (initializer b k (snd (set_stored b (Value v) w))) = Inr (Str (stringified v)) \<and>
        Str (stringified v) \<noteq> held (snd (set_stored b (Value v) w)) \<and>
        held (snd (reconcile b (snd (set_stored b (Value v) w)))) = Str (stringified v))"
proof -
  assume mode: "opt_raw opts" and b: "b = destructure JSON_parse (Some opts) k initial stored"
    and defined: "v \<noteq> Undefined" and other: "\<not> is_string v"
    and written: "throws (storage w) (SetItem k (stringified v)) = None"
  from destructure_raw [OF mode, of JSON_parse k initial stored] b
  have raw: "raw b" and key: "key b = k"
    and identity: "deserializer b = defaultRawOptions_deserializer"
    by simp_all
  let ?t = "stringified v"
  let ?w1 = "snd (set_stored b (Value v) w)"
  have "set_stored b (Value v) w =
      (Inr (),
       w\<lparr>storage := storage w\<lparr>items := (items (storage w))(key b \<mapsto> ?t),
                               calls := calls (storage w) @ [SetItem (key b) ?t]\<rparr>,
         held := v, updates := Suc (updates w)\<rparr>)"
    using raw key defined other written
    by (intro set_succeeds_run) (simp_all add: newValue_def transformedNewValue_def)
  then have w1: "held ?w1 = v" "items (storage ?w1) (key b) = Some ?t"
    "throws (storage ?w1) = throws (storage w)"
    by simp_all
  have differs: "Str ?t \<noteq> v"
    using other by (cases v) auto
  have decoded: "deserializer b ?t = Inr (Str ?t)"
    by (simp add: identity defaultRawOptions_deserializer_def)
  have fresh: "fst (initializer b k ?w1) = Inr (Str ?t)"
    if "throws (storage w) (GetItem k) = None"
    using that w1 decoded key by (simp add: initializer_value)
  have "held (snd (reconcile b ?w1)) = Str ?t" if "throws (storage w) (GetItem k) = None"
    using reconcile_after_read [of ?w1 b ?t "Str ?t"] that w1 decoded key differs
    by (simp add: isDeepEqual_Str)
  with fresh w1 key differs JSON_stringify_defined [OF defined] show ?thesis
    by simp
qed

theorem raw_set_holds_value_witness:
  "opt_raw raw_options \<and>
   Obj [(''fizz'', Str ''bang'')] \<noteq> Undefined \<and>
   \<not> is_string (Obj [(''fizz'', Str ''bang'')]) \<and>
   stringified (Obj [(''fizz'', Str ''bang'')]) = ''{\"fizz\":\"bang\"}'' \<and>
   throws (storage (holding Null (mockStorage []))) (SetItem ''foo'' ''{\"fizz\":\"bang\"}'') =
     None \<and>
   throws (storage (holding Null (mockStorage []))) (GetItem ''foo'') = None \<and>
   items (storage (snd (set_stored (raw_mode Null Null) (Value (Obj [(''fizz'', Str ''bang'')]))
     (holding Null (mockStorage []))))) ''foo'' = Some ''{\"fizz\":\"bang\"}'' \<and>
   held (snd (set_stored (raw_mode Null Null) (Value (Obj [(''fizz'', Str ''bang'')]))
     (holding Null (mockStorage [])))) = Obj [(''fizz'', Str ''bang'')] \<and>
   fst (initializer (raw_mode Null Null) ''foo''
     (snd (set_stored (raw_mode Null Null) (Value (Obj [(''fizz'', Str ''bang'')]))
       (holding Null (mockStorage []))))) = Inr (Str ''{\"fizz\":\"bang\"}'') \<and>
   held (snd (reconcile (raw_mode Null Null)
     (snd (set_stored (raw_mode Null Null) (Value (Obj [(''fizz'', Str ''bang'')]))
       (holding Null (mockStorage [])))))) = Str ''{\"fizz\":\"bang\"}''"
proof -
  let ?opts = "raw_options"
  let ?v = "Obj [(''fizz'', Str ''bang'')]"
  let ?w = "holding Null (mockStorage [])"
  have mode: "opt_raw ?opts"
    and b: "raw_mode Null Null = destructure parse_sample (Some ?opts) ''foo'' Null Null"
    and defined: "?v \<noteq> Undefined" and other: "\<not> is_string ?v"
    and encoded: "stringified ?v = ''{\"fizz\":\"bang\"}''"
    and reads: "throws (storage ?w) (GetItem ''foo'') = None"
    by (simp_all add: raw_mode_def raw_options_def holding_def mockStorage_def
        stringified_def QuoteJSONString_def QuoteJSONChar_def)
  have written: "throws (storage ?w) (SetItem ''foo'' (stringified ?v)) = None"
    by (simp add: holding_def mockStorage_def)
  from raw_set_holds_value [OF mode b defined other written] mode defined other encoded
    written reads
  show ?thesis
    by simp
qed

end
